theory Spec2Isabelle
  imports Main "HOL-Library.Word" "HOL-Library.Sublist"
begin

section \<open>JavaScript notions shared by both components\<close>

text \<open>
  Exceptions are values. A call either returns the new state, or throws an error and
  leaves the state as it was when the exception was raised (assignments made before the
  failing statement stay).
\<close>

datatype js_error = Error string | TypeError string | URIError string

datatype 's completion = Returns 's | Throws js_error 's

fun state_of :: "'s completion \<Rightarrow> 's" where
  "state_of (Returns s) = s"
| "state_of (Throws e s) = s"

text \<open>Lines written to the console: \<open>console.warn\<close> and \<open>console.error\<close>.\<close>

datatype log_entry = Warn string | Err string

text \<open>
  What an awaited promise does: it resolves, it rejects (the \<open>await\<close> throws), or it stays
  pending and the code after the \<open>await\<close> never runs.
\<close>

datatype outcome = Resolves | Rejects | Hangs

subsection \<open>\<open>DOMTokenList\<close>: the class list of an element\<close>

definition classList_add :: "string \<Rightarrow> string list \<Rightarrow> string list" where
  "classList_add c cs = (if c \<in> set cs then cs else cs @ [c])"

definition classList_remove :: "string \<Rightarrow> string list \<Rightarrow> string list" where
  "classList_remove c cs = removeAll c cs"

definition classList_contains :: "string \<Rightarrow> string list \<Rightarrow> bool" where
  "classList_contains c cs = (c \<in> set cs)"

text \<open>\<open>classList.toggle(c)\<close> and \<open>classList.toggle(c, force)\<close>.\<close>

definition classList_toggle :: "string \<Rightarrow> string list \<Rightarrow> string list" where
  "classList_toggle c cs = (if c \<in> set cs then classList_remove c cs else classList_add c cs)"

definition classList_toggle_force :: "string \<Rightarrow> bool \<Rightarrow> string list \<Rightarrow> string list" where
  "classList_toggle_force c force cs = (if force then classList_add c cs else classList_remove c cs)"

section \<open>The embedded widget: class \<open>NexusLumaAIWidget\<close>\<close>

text \<open>
  A JavaScript string is a sequence of UTF-16 code units. The text the visitor types is
  kept in that form, since \<open>trim\<close> is defined on code units. Fixed texts of the program
  (class names, status lines, console lines) are HOL strings.
\<close>

type_synonym jsstring = "16 word list"

text \<open>
  The third-party client is duck-typed: each method is a slot that is present or absent.
  \<open>has_sendText\<close> is \<open>typeof vapi.sendText === 'function'\<close>; the other slots are tested
  for truthiness.
\<close>

record client =
  has_on :: bool
  has_start :: bool
  has_connectToAssistant :: bool
  has_stop :: bool
  has_sendText :: bool

text \<open>The calls made on the third-party client, in order.\<close>

datatype sdk_call =
    On string
  | Start "string option"
  | ConnectToAssistant "string option"
  | Stop
  | SendText jsstring

text \<open>One child of the chat element: its \<open>className\<close> and its \<open>textContent\<close>.\<close>

record msg =
  className :: string
  textContent :: jsstring

text \<open>
  The instance fields of the constructor (\<open>_isOpen\<close>, \<open>_isConnected\<close>, \<open>_isListening\<close>,
  \<open>_vapi\<close>, \<open>_mounted\<close>; the leading underscore is dropped), the attributes the code reads,
  and the parts of the shadow tree that \<open>_render\<close> stores in \<open>_elements\<close>. \<open>rendered\<close>
  says that \<open>_elements\<close> is filled: before \<open>_render\<close> it is the empty object, and reading
  \<open>this._elements.panel.classList\<close> throws a TypeError. \<open>listeners\<close> has one entry for
  each time \<open>_initVapiClient\<close> has added its six event listeners: the \<open>assistantId\<close>
  that the closure of the mic listener has captured. \<open>subscriptions\<close> counts how often
  it has subscribed to the four events of the client.
\<close>

record widget =
  isOpen :: bool
  isConnected :: bool
  isListening :: bool
  vapi :: "client option"
  mounted :: bool
  attr_open :: "string option"
  attr_public_key :: "string option"
  attr_assistant_id :: "string option"
  rendered :: bool
  fab_classes :: "string list"
  panel_classes :: "string list"
  mic_classes :: "string list"
  projection_opacity :: string
  modeSwitch_text :: string
  status_text :: string
  chat_children :: "msg list"
  textInput_value :: jsstring
  listeners :: "string option list"
  subscriptions :: nat
  console :: "log_entry list"
  sdk_calls :: "sdk_call list"

text \<open>The constructor: nothing is open, connected, listening, mounted or rendered.\<close>

definition constructor :: "string option \<Rightarrow> string option \<Rightarrow> string option \<Rightarrow> widget" where
  "constructor a_open a_key a_id =
     \<lparr> isOpen = False, isConnected = False, isListening = False, vapi = None,
       mounted = False, attr_open = a_open, attr_public_key = a_key,
       attr_assistant_id = a_id, rendered = False,
       fab_classes = [], panel_classes = [], mic_classes = [],
       projection_opacity = [], modeSwitch_text = [], status_text = [],
       chat_children = [], textInput_value = [], listeners = [], subscriptions = 0,
       console = [], sdk_calls = [] \<rparr>"

text \<open>
  \<open>_render\<close>: the template gives the fab, the panel and the mic their single class, the
  status its text \<open>Idle\<close>, the mode button its text \<open>Text\<close>, an empty chat and an empty
  input. (The style sheet and the projection's initial opacity come from CSS and are
  not state of the program.)
\<close>

definition render :: "widget \<Rightarrow> widget" where
  "render w = w\<lparr> rendered := True,
     fab_classes := [''fab''], panel_classes := [''panel''], mic_classes := [''mic''],
     modeSwitch_text := ''Text'', status_text := ''Idle'',
     chat_children := [], textInput_value := [] \<rparr>"

definition setStatus :: "string \<Rightarrow> widget \<Rightarrow> widget" where
  "setStatus s w = w\<lparr> status_text := s \<rparr>"

definition pulse :: "bool \<Rightarrow> widget \<Rightarrow> widget" where
  "pulse on w = w\<lparr> fab_classes := classList_toggle_force ''pulsing'' on (fab_classes w) \<rparr>"

definition flashProjectionLine :: "bool \<Rightarrow> widget \<Rightarrow> widget" where
  "flashProjectionLine on w = w\<lparr> projection_opacity := (if on then ''1'' else ''0'') \<rparr>"

subsection \<open>Public API: \<open>open\<close>, \<open>close\<close>, \<open>toggle\<close>\<close>

text \<open>
  \<open>open()\<close> assigns \<open>_isOpen\<close> first and then touches the panel: on a widget that was
  never rendered the second statement throws, with the flag already set.
\<close>

definition widget_open :: "widget \<Rightarrow> widget completion" where
  "widget_open w =
     (let w1 = w\<lparr> isOpen := True \<rparr> in
      if rendered w1 then
        Returns (flashProjectionLine True
          (w1\<lparr> panel_classes := classList_add ''open'' (panel_classes w1),
               fab_classes := classList_add ''active'' (fab_classes w1) \<rparr>))
      else Throws (TypeError ''this._elements.panel is undefined'') w1)"

definition widget_close :: "widget \<Rightarrow> widget completion" where
  "widget_close w =
     (let w1 = w\<lparr> isOpen := False \<rparr> in
      if rendered w1 then
        Returns (flashProjectionLine False
          (w1\<lparr> panel_classes := classList_remove ''open'' (panel_classes w1),
               fab_classes := classList_remove ''active'' (fab_classes w1) \<rparr>))
      else Throws (TypeError ''this._elements.panel is undefined'') w1)"

definition widget_toggle :: "widget \<Rightarrow> widget completion" where
  "widget_toggle w = (if isOpen w then widget_close w else widget_open w)"

text \<open>A sequence of calls of the public API; an exception ends it.\<close>

datatype api_call = Open | Close | Toggle

fun call_api :: "api_call \<Rightarrow> widget \<Rightarrow> widget completion" where
  "call_api Open w = widget_open w"
| "call_api Close w = widget_close w"
| "call_api Toggle w = widget_toggle w"

fun run_api :: "api_call list \<Rightarrow> widget \<Rightarrow> widget completion" where
  "run_api [] w = Returns w"
| "run_api (c # cs) w =
     (case call_api c w of
        Returns w' \<Rightarrow> run_api cs w'
      | Throws e w' \<Rightarrow> Throws e w')"

text \<open>
  The specification's "parity-reduced result" of a call sequence: the last \<open>open\<close> or
  \<open>close\<close> of the sequence fixes the flag (the initial flag when there is none), and the
  flag is flipped when the number of \<open>toggle\<close> calls after it is odd.
\<close>

definition parity_reduced :: "bool \<Rightarrow> api_call list \<Rightarrow> bool" where
  "parity_reduced init cs =
     (let toggles = length (takeWhile (\<lambda>c. c = Toggle) (rev cs));
          base = (case dropWhile (\<lambda>c. c = Toggle) (rev cs) of
                    [] \<Rightarrow> init
                  | Open # _ \<Rightarrow> True
                  | Close # _ \<Rightarrow> False
                  | Toggle # _ \<Rightarrow> init)
      in if even toggles then base else \<not> base)"

subsection \<open>Loading the SDK and creating the client\<close>

text \<open>What \<open>new window.Vapi(publicKey)\<close> does: it throws, or it returns a client.\<close>

datatype ctor = CtorThrows | CtorReturns client

text \<open>
  The page around the widget: \<open>window.Vapi\<close> when the widget is attached (absent when
  the SDK is not on the page), what loading the script from the CDN does, the value of
  \<open>window.Vapi\<close> once that script has run, and whether the client's \<open>on\<close> method
  throws when it is called.
\<close>

record environment =
  window_Vapi :: "ctor option"
  script_load :: outcome
  loaded_Vapi :: "ctor option"
  on_throws :: bool

text \<open>
  \<open>_ensureVapi\<close>: resolved at once when \<open>window.Vapi\<close> is there, else the outcome of
  the injected script. The second component is \<open>window.Vapi\<close> afterwards.
\<close>

definition ensureVapi :: "environment \<Rightarrow> outcome \<times> ctor option" where
  "ensureVapi env =
     (case window_Vapi env of
        Some c \<Rightarrow> (Resolves, Some c)
      | None \<Rightarrow>
          (case script_load env of
             Resolves \<Rightarrow> (Resolves, loaded_Vapi env)
           | Rejects \<Rightarrow> (Rejects, None)
           | Hangs \<Rightarrow> (Hangs, None)))"

definition log :: "log_entry \<Rightarrow> widget \<Rightarrow> widget" where
  "log e w = w\<lparr> console := console w @ [e] \<rparr>"

definition sdk :: "sdk_call \<Rightarrow> widget \<Rightarrow> widget" where
  "sdk c w = w\<lparr> sdk_calls := sdk_calls w @ [c] \<rparr>"

text \<open>The six \<open>addEventListener\<close> calls under "Hook buttons".\<close>

definition hook_buttons :: "string option \<Rightarrow> widget \<Rightarrow> widget" where
  "hook_buttons assistantId w = w\<lparr> listeners := listeners w @ [assistantId] \<rparr>"

text \<open>
  \<open>_initVapiClient\<close>. Without \<open>window.Vapi\<close> it logs and returns. Otherwise everything
  runs inside one \<open>try\<close>: the construction, the four subscriptions when the client has
  \<open>on\<close>, and the hooking of the buttons. Whatever throws there skips the rest and ends in
  the \<open>catch\<close>, which logs and sets the status \<open>Init error\<close>. The first argument is the
  value of \<open>window.Vapi\<close>, the second says whether \<open>on\<close> throws.
\<close>

definition initVapiClient ::
  "ctor option \<Rightarrow> bool \<Rightarrow> string option \<Rightarrow> string option \<Rightarrow> widget \<Rightarrow> widget" where
  "initVapiClient global_Vapi on_fails publicKey assistantId w =
     (case global_Vapi of
        None \<Rightarrow> log (Err ''[NexusLumaAI] Vapi SDK unavailable on window.'') w
      | Some CtorThrows \<Rightarrow>
          setStatus ''Init error'' (log (Err ''[NexusLumaAI] Error creating Vapi client:'') w)
      | Some (CtorReturns c) \<Rightarrow>
          (let w1 = w\<lparr> vapi := Some c \<rparr> in
           if has_on c then
             (if on_fails then
                setStatus ''Init error''
                  (log (Err ''[NexusLumaAI] Error creating Vapi client:'')
                     (sdk (On ''call.started'') w1))
              else
                hook_buttons assistantId
                  ((sdk (On ''speech.ended'') (sdk (On ''speech.started'')
                     (sdk (On ''call.ended'') (sdk (On ''call.started'') w1))))
                   \<lparr> subscriptions := Suc (subscriptions w1) \<rparr>))
           else hook_buttons assistantId w1))"

text \<open>The handlers that \<open>_initVapiClient\<close> gives to \<open>on\<close>.\<close>

datatype sdk_event = CallStarted | CallEnded | SpeechStarted | SpeechEnded

fun sdk_handler :: "sdk_event \<Rightarrow> widget \<Rightarrow> widget" where
  "sdk_handler CallStarted w = (setStatus ''Connected'' w)\<lparr> isConnected := True \<rparr>"
| "sdk_handler CallEnded w =
     (setStatus ''Disconnected'' w)
       \<lparr> isConnected := False, isListening := False,
         mic_classes := classList_remove ''on'' (mic_classes w) \<rparr>"
| "sdk_handler SpeechStarted w = pulse True w"
| "sdk_handler SpeechEnded w = pulse False w"

text \<open>An event of the client runs the handler of every subscription.\<close>

definition on_sdk_event :: "sdk_event \<Rightarrow> widget \<Rightarrow> widget" where
  "on_sdk_event e w = ((sdk_handler e) ^^ (subscriptions w)) w"

subsection \<open>Attachment and attributes\<close>

text \<open>\<open>!s\<close> for a value that is a string or absent: absent and the empty string are falsy.\<close>

definition falsy :: "string option \<Rightarrow> bool" where
  "falsy s = (case s of None \<Rightarrow> True | Some v \<Rightarrow> v = [])"

text \<open>\<open>this.hasAttribute('open') && this.getAttribute('open') !== 'false'\<close>\<close>

definition open_requested :: "widget \<Rightarrow> bool" where
  "open_requested w = (case attr_open w of None \<Rightarrow> False | Some v \<Rightarrow> v \<noteq> ''false'')"

text \<open>
  \<open>connectedCallback\<close>. The synchronous part comes first: the guard, the warning, the
  rendering, and \<open>open()\<close> when the attribute asks for it (\<open>open()\<close> cannot throw there,
  \<open>_render\<close> has run). The callbacks on the promise of \<open>_ensureVapi\<close> run after it:
  \<open>_initVapiClient\<close> when the promise resolves, the \<open>catch\<close> when it rejects, nothing while
  it is pending. \<open>_applyTheme\<close> and \<open>_applyPosition\<close> set attributes of the host element
  only (\<open>data-theme-dark\<close>, \<open>data-theme-light\<close>, \<open>data-pos\<close>), which nothing in the class
  reads; they are not part of the state here.
\<close>

definition connectedCallback :: "environment \<Rightarrow> widget \<Rightarrow> widget" where
  "connectedCallback env w =
     (if mounted w then w
      else
        let w1 = w\<lparr> mounted := True \<rparr>;
            publicKey = attr_public_key w1;
            assistantId = attr_assistant_id w1;
            w2 = (if falsy publicKey \<or> falsy assistantId
                  then log (Warn ''[NexusLumaAI] Missing public-key and/or assistant-id attributes on <nxl-ai-widget>.'') w1
                  else w1);
            w3 = render w2;
            w4 = (if open_requested w3 then state_of (widget_open w3) else w3)
        in case ensureVapi env of
             (Resolves, global_Vapi) \<Rightarrow>
               initVapiClient global_Vapi (on_throws env) publicKey assistantId w4
           | (Rejects, _) \<Rightarrow>
               setStatus ''SDK load failed''
                 (log (Err ''[NexusLumaAI] Failed to load Vapi SDK:'') w4)
           | (Hangs, _) \<Rightarrow> w4)"

text \<open>
  \<open>attributeChangedCallback\<close>, called with the attribute already changed. Only the
  \<open>open\<close> attribute touches the state kept here.
\<close>

definition attributeChangedCallback :: "string \<Rightarrow> widget \<Rightarrow> widget completion" where
  "attributeChangedCallback name w =
     (if \<not> mounted w then Returns w
      else if name = ''open'' then
        (if open_requested w then widget_open w else widget_close w)
      else Returns w)"

subsection \<open>Talk toggle: \<open>_toggleMic\<close>\<close>

text \<open>The three statements after a successful start, and those of the \<open>catch\<close>.\<close>

definition listening_on :: "widget \<Rightarrow> widget" where
  "listening_on w =
     setStatus ''Listening...''
       (w\<lparr> isListening := True, mic_classes := classList_add ''on'' (mic_classes w) \<rparr>)"

definition mic_blocked :: "widget \<Rightarrow> widget" where
  "mic_blocked w =
     setStatus ''Mic blocked''
       (log (Err ''[NexusLumaAI] Mic permission denied or start failed:'') w)"

definition listening_off :: "widget \<Rightarrow> widget" where
  "listening_off w =
     setStatus ''Idle''
       (w\<lparr> isListening := False, mic_classes := classList_remove ''on'' (mic_classes w) \<rparr>)"

text \<open>
  \<open>_toggleMic(assistantId)\<close>. \<open>perm\<close> is what the promise of \<open>getUserMedia\<close> does, \<open>call\<close>
  what the promise of the client's method does (\<open>start\<close>, \<open>connectToAssistant\<close> or
  \<open>stop\<close>, whichever is called). Each branch is one \<open>try\<close> block: a rejection jumps to its
  \<open>catch\<close>, and a promise that stays pending leaves the state as it is at the \<open>await\<close>.
\<close>

definition toggleMic :: "outcome \<Rightarrow> outcome \<Rightarrow> string option \<Rightarrow> widget \<Rightarrow> widget" where
  "toggleMic perm call assistantId w =
     (case vapi w of
        None \<Rightarrow> w
      | Some c \<Rightarrow>
          if \<not> isListening w then
            (case perm of
               Hangs \<Rightarrow> w
             | Rejects \<Rightarrow> mic_blocked w
             | Resolves \<Rightarrow>
                 if has_start c then
                   (let w1 = sdk (Start assistantId) w in
                    case call of
                      Resolves \<Rightarrow> listening_on w1
                    | Rejects \<Rightarrow> mic_blocked w1
                    | Hangs \<Rightarrow> w1)
                 else if has_connectToAssistant c then
                   (let w1 = sdk (ConnectToAssistant assistantId) w in
                    case call of
                      Resolves \<Rightarrow> listening_on w1
                    | Rejects \<Rightarrow> mic_blocked w1
                    | Hangs \<Rightarrow> w1)
                 else
                   listening_on
                     (log (Warn ''[NexusLumaAI] No start/connectToAssistant API found on Vapi instance.'') w))
          else
            (if has_stop c then
               (let w1 = sdk Stop w in
                case call of
                  Resolves \<Rightarrow> listening_off w1
                | Rejects \<Rightarrow> log (Err ''[NexusLumaAI] stop() failed:'') w1
                | Hangs \<Rightarrow> w1)
             else listening_off w))"

subsection \<open>Mode toggle and text send\<close>

definition toggleMode :: "widget \<Rightarrow> widget" where
  "toggleMode w =
     (let cs = classList_toggle ''text-mode'' (panel_classes w) in
      w\<lparr> panel_classes := cs,
         modeSwitch_text := (if classList_contains ''text-mode'' cs then ''Voice'' else ''Text'') \<rparr>)"

text \<open>
  \<open>String.prototype.trim\<close> removes the white space and line terminators of ECMAScript
  from both ends: TAB, LF, VT, FF, CR, SPACE, NBSP, the space separators U+1680,
  U+2000 to U+200A, U+202F, U+205F, U+3000, the line and paragraph separators U+2028
  and U+2029, and the byte order mark U+FEFF.
\<close>

definition js_whitespace :: "16 word \<Rightarrow> bool" where
  "js_whitespace c =
     (c = 0x0009 \<or> c = 0x000A \<or> c = 0x000B \<or> c = 0x000C \<or> c = 0x000D \<or> c = 0x0020 \<or>
      c = 0x00A0 \<or> c = 0x1680 \<or> (0x2000 \<le> c \<and> c \<le> 0x200A) \<or> c = 0x2028 \<or> c = 0x2029 \<or>
      c = 0x202F \<or> c = 0x205F \<or> c = 0x3000 \<or> c = 0xFEFF)"

definition trim :: "jsstring \<Rightarrow> jsstring" where
  "trim s = rev (dropWhile js_whitespace (rev (dropWhile js_whitespace s)))"

definition appendMsg :: "string \<Rightarrow> jsstring \<Rightarrow> widget \<Rightarrow> widget" where
  "appendMsg type content w =
     w\<lparr> chat_children := chat_children w @ [\<lparr> className = ''msg '' @ type, textContent = content \<rparr>] \<rparr>"

text \<open>
  \<open>_sendText\<close>. \<open>call\<close> is what the promise of the client's \<open>sendText\<close> does. The input's
  value is a string, so \<open>value || ''\<close> is the value.
\<close>

definition sendText :: "outcome \<Rightarrow> widget \<Rightarrow> widget" where
  "sendText call w =
     (let v = trim (textInput_value w) in
      if v = [] then w
      else
        (case vapi w of
           None \<Rightarrow> log (Warn ''[NexusLumaAI] sendText API not available in this SDK version.'') w
         | Some c \<Rightarrow>
             if has_sendText c then
               (let w1 = sdk (SendText v) w in
                case call of
                  Resolves \<Rightarrow> (appendMsg ''user'' v w1)\<lparr> textInput_value := [] \<rparr>
                | Rejects \<Rightarrow> log (Err ''[NexusLumaAI] sendText failed:'') w1
                | Hangs \<Rightarrow> w1)
             else log (Warn ''[NexusLumaAI] sendText API not available in this SDK version.'') w))"

subsection \<open>Events of the visitor\<close>

text \<open>
  The DOM events that have a listener in the class. An event runs every listener that
  was added for it, in order; an exception inside a listener is reported and does not
  stop the others. The outcomes are those of the promises the listener awaits.
\<close>

datatype ui_event =
    ClickFab
  | ClickClose
  | ClickMic outcome outcome
  | ClickMode
  | ClickSend outcome
  | KeydownInput string outcome

fun listener :: "ui_event \<Rightarrow> string option \<Rightarrow> widget \<Rightarrow> widget" where
  "listener ClickFab assistantId w = state_of (widget_toggle w)"
| "listener ClickClose assistantId w = state_of (widget_close w)"
| "listener (ClickMic perm call) assistantId w = toggleMic perm call assistantId w"
| "listener ClickMode assistantId w = toggleMode w"
| "listener (ClickSend call) assistantId w = sendText call w"
| "listener (KeydownInput key call) assistantId w =
     (if key = ''Enter'' then sendText call w else w)"

definition dispatch :: "ui_event \<Rightarrow> widget \<Rightarrow> widget" where
  "dispatch ev w = fold (listener ev) (listeners w) w"

section \<open>The iframe host loader: \<open>mountIframeWidget\<close>\<close>

subsection \<open>JavaScript values and library functions\<close>

text \<open>
  The values a caller can put into the options: \<open>undefined\<close> (also a property that is
  not given), \<open>null\<close>, a boolean, or a string of UTF-16 code units. Numbers and objects
  other than the mount element are left out: their text form is not needed below.
\<close>

datatype js_value = JSUndefined | JSNull | JSBool bool | JSString jsstring

text \<open>A program text as a JavaScript string: one code unit for each character.\<close>

definition js :: "string \<Rightarrow> jsstring" where
  "js s = map (\<lambda>c. of_nat (of_char c)) s"

text \<open>\<open>!!v\<close> and \<open>String(v)\<close>.\<close>

fun truthy :: "js_value \<Rightarrow> bool" where
  "truthy JSUndefined = False"
| "truthy JSNull = False"
| "truthy (JSBool b) = b"
| "truthy (JSString s) = (s \<noteq> [])"

fun to_string :: "js_value \<Rightarrow> jsstring" where
  "to_string JSUndefined = js ''undefined''"
| "to_string JSNull = js ''null''"
| "to_string (JSBool b) = (if b then js ''true'' else js ''false'')"
| "to_string (JSString s) = s"

text \<open>
  \<open>encodeURIComponent\<close> converts its argument to a string and walks through its code
  points. It keeps the letters, the digits and \<open>- _ . ! ~ * ' ( )\<close>, and writes every other
  code point as the bytes of its UTF-8 form, each as \<open>%\<close> and two upper-case hexadecimal
  digits. A lead surrogate (U+D800 to U+DBFF) and the trail surrogate (U+DC00 to
  U+DFFF) after it are one code point; a surrogate without its partner makes the
  function throw a URIError.
\<close>

definition uri_unreserved :: "16 word \<Rightarrow> bool" where
  "uri_unreserved c =
     ((0x41 \<le> c \<and> c \<le> 0x5A) \<or> (0x61 \<le> c \<and> c \<le> 0x7A) \<or> (0x30 \<le> c \<and> c \<le> 0x39) \<or>
      c = 0x2D \<or> c = 0x5F \<or> c = 0x2E \<or> c = 0x21 \<or> c = 0x7E \<or> c = 0x2A \<or>
      c = 0x27 \<or> c = 0x28 \<or> c = 0x29)"

definition is_lead :: "16 word \<Rightarrow> bool" where
  "is_lead c = (0xD800 \<le> c \<and> c \<le> 0xDBFF)"

definition is_trail :: "16 word \<Rightarrow> bool" where
  "is_trail c = (0xDC00 \<le> c \<and> c \<le> 0xDFFF)"

definition pair_code_point :: "16 word \<Rightarrow> 16 word \<Rightarrow> nat" where
  "pair_code_point c d = (unat c - 0xD800) * 0x400 + (unat d - 0xDC00) + 0x10000"

definition utf8 :: "nat \<Rightarrow> nat list" where
  "utf8 cp =
     (if cp < 0x80 then [cp]
      else if cp < 0x800 then [0xC0 + cp div 0x40, 0x80 + cp mod 0x40]
      else if cp < 0x10000 then
        [0xE0 + cp div 0x1000, 0x80 + (cp div 0x40) mod 0x40, 0x80 + cp mod 0x40]
      else
        [0xF0 + cp div 0x40000, 0x80 + (cp div 0x1000) mod 0x40,
         0x80 + (cp div 0x40) mod 0x40, 0x80 + cp mod 0x40])"

definition hex_digit :: "nat \<Rightarrow> 16 word" where
  "hex_digit n = (if n < 10 then 0x30 + of_nat n else 0x41 + of_nat (n - 10))"

definition percent_encode :: "nat \<Rightarrow> jsstring" where
  "percent_encode byte = [0x25, hex_digit (byte div 16), hex_digit (byte mod 16)]"

definition uri_malformed :: js_error where
  "uri_malformed = URIError ''URI malformed''"

fun encode :: "jsstring \<Rightarrow> js_error + jsstring" where
  "encode [] = Inr []"
| "encode (c # cs) =
     (if uri_unreserved c then
        (case encode cs of Inl e \<Rightarrow> Inl e | Inr r \<Rightarrow> Inr (c # r))
      else if is_trail c then Inl uri_malformed
      else if is_lead c then
        (case cs of
           [] \<Rightarrow> Inl uri_malformed
         | d # ds \<Rightarrow>
             if is_trail d then
               (case encode ds of
                  Inl e \<Rightarrow> Inl e
                | Inr r \<Rightarrow> Inr (concat (map percent_encode (utf8 (pair_code_point c d))) @ r))
             else Inl uri_malformed)
      else
        (case encode cs of
           Inl e \<Rightarrow> Inl e
         | Inr r \<Rightarrow> Inr (concat (map percent_encode (utf8 (unat c))) @ r)))"

definition encodeURIComponent :: "js_value \<Rightarrow> js_error + jsstring" where
  "encodeURIComponent v = encode (to_string v)"


text \<open>\<open>hay.includes(needle)\<close>: the needle occurs in it as a contiguous piece.\<close>

definition str_includes :: "jsstring \<Rightarrow> jsstring \<Rightarrow> bool" where
  "str_includes hay needle = sublist needle hay"

subsection \<open>Data\<close>

text \<open>
  The texts inside messages are only compared and passed on; they are HOL strings.
\<close>

text \<open>
  The payload of a message: absent, a string (or another primitive, which has no
  \<open>listening\<close> property), or an object, of which the loader reads only whether its
  \<open>listening\<close> property is truthy.
\<close>

datatype payload = Undefined | Text string | Object bool

text \<open>
  The data of a message event, when it is truthy: the fields the loader reads. A field
  is \<open>None\<close> when the data has no such property or it is not a string. (Falsy data is
  \<open>None\<close> of \<open>message option\<close>.)
\<close>

record message =
  source :: "string option"
  msg_type :: "string option"
  payload :: payload

text \<open>The mount point: its children, and whether it is attached to the document.\<close>

datatype node = Fab | Frame | Other string

record container =
  children :: "node list"
  in_document :: bool

text \<open>
  What the caller gives as \<open>mount\<close>: an element, or a value that is none (it has no
  \<open>appendChild\<close>).
\<close>

datatype mount_arg = Element container | Primitive js_value

fun mount_given :: "mount_arg \<Rightarrow> bool" where
  "mount_given (Element m) = True"
| "mount_given (Primitive v) = truthy v"

text \<open>The options of \<open>mountIframeWidget\<close>.\<close>

record opts =
  mount :: mount_arg
  publicKey :: js_value
  assistantId :: js_value
  position :: js_value
  widgetUrl :: js_value

text \<open>The page: whether the style element \<open>nxl-style\<close> exists, and \<open>location.origin\<close>.\<close>

record page =
  has_style :: bool
  origin :: string

text \<open>
  What one mount call owns: the variable \<open>open\<close> of the closure (\<open>opened\<close> here), the two elements it
  built, the children of the mount point, whether the frame has a \<open>contentWindow\<close>
  (it has none while it is outside a document), the messages posted on the host's own
  window and those posted to the frame's window, and the warnings logged.
\<close>

record host =
  opened :: bool
  nxl_fab_classes :: "string list"
  frame_classes :: "string list"
  frame_allow :: string
  frame_src :: jsstring
  mount_children :: "node list"
  contentWindow :: bool
  window_posted :: "message list"
  frame_posted :: "message list"
  warnings :: "log_entry list"



subsection \<open>Mounting\<close>

definition ensureStyle :: "page \<Rightarrow> page" where
  "ensureStyle pg = (if has_style pg then pg else pg\<lparr> has_style := True \<rparr>)"

text \<open>
  \<open>mountIframeWidget(opts)\<close>, statement by statement. \<open>opts || {}\<close> makes a missing
  argument an object without properties, so its \<open>mount\<close> is missing. The function can
  throw in four places:
  \<^item> the explicit \<open>throw\<close> when \<open>mount\<close> is falsy, before anything has changed;
  \<^item> \<open>position.includes\<close>, a TypeError when \<open>position\<close> is not a string (its default
    replaces \<open>undefined\<close> only), after the warning and \<open>ensureStyle()\<close>;
  \<^item> \<open>encodeURIComponent\<close> of the two keys and the origin, in this order, a URIError;
  \<^item> \<open>mount.appendChild\<close>, a TypeError when the mount point is not an element.
  A thrown error comes with the page and the console as they are at that moment.
\<close>

definition mount_required :: js_error where
  "mount_required = Error ''NXL.mountIframeWidget: opts.mount is required''"

definition mountIframeWidget ::
  "page \<Rightarrow> opts option \<Rightarrow> (js_error \<times> page \<times> log_entry list) + page \<times> host" where
  "mountIframeWidget pg arg =
     (case arg of
        None \<Rightarrow> Inl (mount_required, pg, [])
      | Some opts \<Rightarrow>
          if \<not> mount_given (mount opts) then Inl (mount_required, pg, [])
          else
            (let warned = (if \<not> truthy (publicKey opts) \<or> \<not> truthy (assistantId opts)
                           then [Warn ''[NXL] Missing Vapi keys.''] else []);
                 pg1 = ensureStyle pg;
                 pos = (case position opts of JSUndefined \<Rightarrow> JSString (js ''bottom-right'') | v \<Rightarrow> v)
             in case pos of
                  JSString p \<Rightarrow>
                    (let side = (if str_includes p (js ''left'') then [''nxl-left''] else []);
                         url = (if truthy (widgetUrl opts) then to_string (widgetUrl opts)
                                else js ''nxl-iframe.html'')
                     in case encodeURIComponent (publicKey opts) of
                          Inl e \<Rightarrow> Inl (e, pg1, warned)
                        | Inr pk \<Rightarrow>
                     (case encodeURIComponent (assistantId opts) of
                          Inl e \<Rightarrow> Inl (e, pg1, warned)
                        | Inr aid \<Rightarrow>
                     (case encodeURIComponent (JSString (js (origin pg))) of
                          Inl e \<Rightarrow> Inl (e, pg1, warned)
                        | Inr host_origin \<Rightarrow>
                     (case mount opts of
                          Primitive v \<Rightarrow>
                            Inl (TypeError ''mount.appendChild'', pg1, warned)
                        | Element m \<Rightarrow>
                            Inr (pg1,
                              \<lparr> opened = False,
                                nxl_fab_classes = ''nxl-fab'' # side,
                                frame_classes = ''nxl-frame'' # side,
                                frame_allow = ''microphone; autoplay'',
                                frame_src = url @ js ''?publicKey='' @ pk
                                  @ js ''&assistantId='' @ aid @ js ''&host='' @ host_origin,
                                mount_children = children m @ [Fab, Frame],
                                contentWindow = in_document m,
                                window_posted = [],
                                frame_posted = [],
                                warnings = warned \<rparr>)))))
                | _ \<Rightarrow> Inl (TypeError ''position.includes'', pg1, warned)))"

subsection \<open>The closure: \<open>toggle\<close>, the message listener, the returned handle\<close>

definition host_message :: "string \<Rightarrow> payload \<Rightarrow> message" where
  "host_message t p = \<lparr> source = Some ''NXL_HOST'', msg_type = Some t, payload = p \<rparr>"

definition toggle :: "host \<Rightarrow> host" where
  "toggle h =
     (let now = \<not> opened h in
      h\<lparr> opened := now,
         frame_classes := classList_toggle_force ''nxl-open'' now (frame_classes h),
         window_posted := window_posted h
           @ [host_message (if now then ''open'' else ''close'') Undefined] \<rparr>)"

text \<open>\<open>!!(data.payload && data.payload.listening)\<close>\<close>

fun listening :: "payload \<Rightarrow> bool" where
  "listening Undefined = False"
| "listening (Text s) = False"
| "listening (Object l) = l"

text \<open>
  The listener for \<open>message\<close> events of the host's window. The branches for \<open>ready\<close> and
  \<open>sendText\<close> are empty in the source.
\<close>

definition on_message :: "message option \<Rightarrow> host \<Rightarrow> host" where
  "on_message data h =
     (case data of
        None \<Rightarrow> h
      | Some d \<Rightarrow>
          if source d \<noteq> Some ''NXL_IFRAME'' then h
          else
            let h1 = (if msg_type d = Some ''state''
                      then h\<lparr> nxl_fab_classes :=
                             classList_toggle_force ''nxl-pulse'' (listening (payload d)) (nxl_fab_classes h) \<rparr>
                      else h);
                h2 = (if msg_type d = Some ''error''
                      then h1\<lparr> warnings := warnings h1 @ [Warn ''[NXL iframe] error:''] \<rparr>
                      else h1)
            in if msg_type d = Some ''close'' \<and> opened h2 then toggle h2 else h2)"

text \<open>The three functions of the returned handle.\<close>

definition handle_open :: "host \<Rightarrow> host" where
  "handle_open h = (if \<not> opened h then toggle h else h)"

definition handle_close :: "host \<Rightarrow> host" where
  "handle_close h = (if opened h then toggle h else h)"

text \<open>
  \<open>sendText(t)\<close> posts \<open>String(t || '')\<close> to \<open>iframe.contentWindow\<close>; without a content
  window the property access throws.
\<close>

definition handle_sendText :: "string option \<Rightarrow> host \<Rightarrow> host completion" where
  "handle_sendText t h =
     (if contentWindow h then
        Returns (h\<lparr> frame_posted := frame_posted h
          @ [host_message ''sendText'' (Text (case t of None \<Rightarrow> [] | Some s \<Rightarrow> s))] \<rparr>)
      else Throws (TypeError ''iframe.contentWindow is null'') h)"

text \<open>Everything that can happen to a mounted loader, and a run of such events.\<close>

datatype host_event =
    FabClick
  | MessageEvent "message option"
  | CallOpen
  | CallClose
  | CallSendText "string option"

fun host_step :: "host_event \<Rightarrow> host \<Rightarrow> host" where
  "host_step FabClick h = toggle h"
| "host_step (MessageEvent data) h = on_message data h"
| "host_step CallOpen h = handle_open h"
| "host_step CallClose h = handle_close h"
| "host_step (CallSendText t) h = state_of (handle_sendText t h)"

definition host_run :: "host_event list \<Rightarrow> host \<Rightarrow> host" where
  "host_run evs h = fold host_step evs h"

text \<open>The two kinds of message the loader sends.\<close>

definition is_toggle_message :: "message \<Rightarrow> bool" where
  "is_toggle_message m =
     (source m = Some ''NXL_HOST'' \<and> (msg_type m = Some ''open'' \<or> msg_type m = Some ''close''))"

definition is_sendText_message :: "message \<Rightarrow> bool" where
  "is_sendText_message m = (source m = Some ''NXL_HOST'' \<and> msg_type m = Some ''sendText'')"

section \<open>Scenarios\<close>

text \<open>
  A page that has the SDK, whose client offers \<open>on\<close>, \<open>start\<close>, \<open>stop\<close> and \<open>sendText\<close>,
  and a widget with both keys attached to it.
\<close>

definition full_client :: client where
  "full_client = \<lparr> has_on = True, has_start = True, has_connectToAssistant = False,
                    has_stop = True, has_sendText = True \<rparr>"

definition page_with_sdk :: "client \<Rightarrow> environment" where
  "page_with_sdk c = \<lparr> window_Vapi = Some (CtorReturns c), script_load = Resolves,
                        loaded_Vapi = Some (CtorReturns c), on_throws = False \<rparr>"

definition new_widget :: widget where
  "new_widget = constructor None (Some ''pk'') (Some ''aid'')"

definition ready_widget :: widget where
  "ready_widget = connectedCallback (page_with_sdk full_client) new_widget"

text \<open>The same widget after a click on the mic, permission granted and \<open>start\<close> resolved.\<close>

definition listening_widget :: widget where
  "listening_widget = dispatch (ClickMic Resolves Resolves) ready_widget"

text \<open>A client of an SDK version that has neither \<open>start\<close> nor \<open>connectToAssistant\<close>.\<close>

definition client_without_start :: client where
  "client_without_start = \<lparr> has_on = True, has_start = False, has_connectToAssistant = False,
                              has_stop = True, has_sendText = True \<rparr>"

text \<open>A page without the SDK, on which the script from the CDN fails to load.\<close>

definition page_cdn_blocked :: environment where
  "page_cdn_blocked = \<lparr> window_Vapi = None, script_load = Rejects,
                         loaded_Vapi = None, on_throws = False \<rparr>"

definition degraded_widget :: widget where
  "degraded_widget = connectedCallback page_cdn_blocked new_widget"

text \<open>A page whose SDK is there, but whose constructor throws.\<close>

definition page_ctor_throws :: environment where
  "page_ctor_throws = \<lparr> window_Vapi = Some CtorThrows, script_load = Resolves,
                         loaded_Vapi = Some CtorThrows, on_throws = False \<rparr>"

definition init_error_widget :: widget where
  "init_error_widget = connectedCallback page_ctor_throws new_widget"

text \<open>
  A page and a mount point inside its document; options with both keys, and options
  without keys. \<open>demo_host\<close> is the loader that \<open>mountIframeWidget\<close> builds from the first.
\<close>

definition demo_page :: page where
  "demo_page = \<lparr> has_style = False, origin = ''https://example.org'' \<rparr>"

definition demo_mount :: container where
  "demo_mount = \<lparr> children = [], in_document = True \<rparr>"

definition demo_opts :: opts where
  "demo_opts = \<lparr> mount = Element demo_mount, publicKey = JSString (js ''pk''),
                  assistantId = JSString (js ''aid''),
                  position = JSUndefined, widgetUrl = JSUndefined \<rparr>"

definition opts_without_keys :: opts where
  "opts_without_keys = \<lparr> mount = Element demo_mount, publicKey = JSUndefined,
                          assistantId = JSString [],
                          position = JSString (js ''bottom-left''), widgetUrl = JSUndefined \<rparr>"

definition demo_host :: host where
  "demo_host =
     \<lparr> opened = False,
       nxl_fab_classes = [''nxl-fab''],
       frame_classes = [''nxl-frame''],
       frame_allow = ''microphone; autoplay'',
       frame_src = js ''nxl-iframe.html?publicKey=pk&assistantId=aid&host=https%3A%2F%2Fexample.org'',
       mount_children = [Fab, Frame],
       contentWindow = True,
       window_posted = [],
       frame_posted = [],
       warnings = [] \<rparr>"




text \<open>A \<open>close\<close> message with the tag of the frame, and one with the tag of the host.\<close>

definition close_from_frame :: message where
  "close_from_frame = \<lparr> source = Some ''NXL_IFRAME'', msg_type = Some ''close'', payload = Undefined \<rparr>"

definition close_from_host :: message where
  "close_from_host = \<lparr> source = Some ''NXL_HOST'', msg_type = Some ''close'', payload = Undefined \<rparr>"

section \<open>Properties of the embedded widget\<close>

text \<open>The definitions a concrete run unfolds.\<close>

lemmas widget_defs =
  connectedCallback_def constructor_def ensureVapi_def initVapiClient_def render_def
  falsy_def open_requested_def log_def sdk_def setStatus_def hook_buttons_def
  widget_open_def widget_close_def widget_toggle_def flashProjectionLine_def
  classList_add_def classList_remove_def classList_contains_def classList_toggle_def
  classList_toggle_force_def dispatch_def toggleMic_def listening_on_def listening_off_def
  mic_blocked_def sendText_def appendMsg_def toggleMode_def Let_def

lemmas scenario_defs =
  new_widget_def ready_widget_def listening_widget_def degraded_widget_def
  full_client_def client_without_start_def page_with_sdk_def page_cdn_blocked_def
  page_ctor_throws_def init_error_widget_def

lemma parity_reduced_Nil: "parity_reduced b [] = b"
  by (simp add: parity_reduced_def)

lemma parity_reduced_snoc:
  "parity_reduced b (cs @ [c]) =
     (case c of Open \<Rightarrow> True | Close \<Rightarrow> False | Toggle \<Rightarrow> \<not> parity_reduced b cs)"
  by (cases c) (simp_all add: parity_reduced_def Let_def)

lemma run_api_append:
  "run_api (cs @ ds) w =
     (case run_api cs w of Returns w' \<Rightarrow> run_api ds w' | Throws e w' \<Rightarrow> Throws e w')"
  by (induction cs arbitrary: w) (simp_all split: completion.splits)

lemma call_api_rendered:
  "rendered w \<Longrightarrow>
   \<exists>w'. call_api c w = Returns w' \<and> rendered w' \<and>
        isOpen w' = (case c of Open \<Rightarrow> True | Close \<Rightarrow> False | Toggle \<Rightarrow> \<not> isOpen w) \<and>
        classList_contains ''open'' (panel_classes w') = isOpen w'"
  by (cases c)
     (auto simp: widget_open_def widget_close_def widget_toggle_def flashProjectionLine_def
        classList_add_def classList_remove_def classList_contains_def Let_def)

text \<open>
  Claim C5. On a rendered (mounted) widget every sequence of \<open>open()\<close>, \<open>close()\<close> and
  \<open>toggle()\<close> calls returns without an exception, and the resulting \<open>isOpen\<close> flag is the
  parity-reduced result of the sequence, from whatever flag the widget starts with (the
  initial closed state included); after at least one call the panel's \<open>open\<close> class
  agrees with the flag. Two consecutive \<open>open()\<close> calls are the same as one, and two
  consecutive \<open>close()\<close> calls are the same as one.
\<close>

theorem open_close_toggle_parity:
  assumes "rendered w"
  shows "(\<exists>w'. run_api cs w = Returns w' \<and> rendered w' \<and>
            isOpen w' = parity_reduced (isOpen w) cs \<and>
            classList_contains ''open'' (panel_classes w') =
              (if cs = [] then classList_contains ''open'' (panel_classes w) else isOpen w')) \<and>
         run_api [Open, Open] w = run_api [Open] w \<and>
         run_api [Close, Close] w = run_api [Close] w"
proof -
  have seq: "\<exists>w'. run_api cs w = Returns w' \<and> rendered w' \<and>
            isOpen w' = parity_reduced (isOpen w) cs \<and>
            classList_contains ''open'' (panel_classes w') =
              (if cs = [] then classList_contains ''open'' (panel_classes w) else isOpen w')"
  proof (induction cs rule: rev_induct)
    case Nil
    show ?case using assms by (simp add: parity_reduced_Nil)
  next
    case (snoc c cs)
    then obtain w1 where w1: "run_api cs w = Returns w1" "rendered w1"
      "isOpen w1 = parity_reduced (isOpen w) cs" by blast
    from call_api_rendered [OF w1(2), of c] obtain w2 where w2: "call_api c w1 = Returns w2"
      "rendered w2"
      "isOpen w2 = (case c of Open \<Rightarrow> True | Close \<Rightarrow> False | Toggle \<Rightarrow> \<not> isOpen w1)"
      "classList_contains ''open'' (panel_classes w2) = isOpen w2" by blast
    have "run_api (cs @ [c]) w = Returns w2"
      by (simp add: run_api_append w1(1) w2(1))
    moreover have "isOpen w2 = parity_reduced (isOpen w) (cs @ [c])"
      by (simp add: parity_reduced_snoc w2(3) w1(3) split: api_call.splits)
    ultimately show ?case using w2(2) w2(4) by simp
  qed
  have twice_open: "run_api [Open, Open] w = run_api [Open] w"
    using assms
    by (simp add: widget_open_def flashProjectionLine_def classList_add_def Let_def)
  have twice_close: "run_api [Close, Close] w = run_api [Close] w"
    using assms
    by (simp add: widget_close_def flashProjectionLine_def classList_remove_def Let_def)
  from seq twice_open twice_close show ?thesis by blast
qed

lemma ready_widget_rendered: "rendered ready_widget"
  by (simp add: ready_widget_def connectedCallback_def new_widget_def constructor_def
      page_with_sdk_def full_client_def ensureVapi_def initVapiClient_def render_def
      falsy_def open_requested_def log_def sdk_def setStatus_def hook_buttons_def Let_def)

theorem open_close_toggle_parity_witness:
  "rendered ready_widget \<and>
   (\<exists>w'. run_api [Toggle, Open, Open, Toggle, Close, Toggle] ready_widget = Returns w' \<and>
         isOpen w' \<and> classList_contains ''open'' (panel_classes w'))"
  using open_close_toggle_parity [OF ready_widget_rendered,
      of "[Toggle, Open, Open, Toggle, Close, Toggle]"]
  by (auto simp: ready_widget_rendered parity_reduced_def)

lemma listening_widget_state:
  "vapi listening_widget = Some full_client" "isListening listening_widget"
  "listeners listening_widget = [Some ''aid'']" "has_stop full_client"
  by (simp_all add: widget_defs scenario_defs)

text \<open>
  Claim C1, as the code has it. When the talk toggle runs while \<open>isListening\<close> is true,
  the client's \<open>stop\<close> is called exactly when the client has it. \<open>isListening\<close> becomes
  false, and the status \<open>Idle\<close>, when \<open>stop\<close> is absent or its call resolves. When the call
  throws, the failure is logged and \<open>isListening\<close> stays true; it also stays true while
  the call is pending.
\<close>

theorem toggleMic_while_listening:
  assumes "vapi w = Some c" and "isListening w"
  shows "sdk_calls (toggleMic perm call aid w) =
           (if has_stop c then sdk_calls w @ [Stop] else sdk_calls w) \<and>
         isListening (toggleMic perm call aid w) = (has_stop c \<and> call \<noteq> Resolves) \<and>
         status_text (toggleMic perm call aid w) =
           (if has_stop c \<and> call \<noteq> Resolves then status_text w else ''Idle'') \<and>
         console (toggleMic perm call aid w) =
           (if has_stop c \<and> call = Rejects
            then console w @ [Err ''[NexusLumaAI] stop() failed:''] else console w)"
  using assms
  by (cases call)
     (simp_all add: toggleMic_def listening_off_def setStatus_def sdk_def log_def Let_def)

theorem toggleMic_while_listening_witness:
  "vapi listening_widget = Some full_client \<and> isListening listening_widget \<and>
   sdk_calls (toggleMic Resolves Rejects (Some ''aid'') listening_widget) =
     sdk_calls listening_widget @ [Stop] \<and>
   isListening (toggleMic Resolves Rejects (Some ''aid'') listening_widget)"
  using toggleMic_while_listening [OF listening_widget_state(1) listening_widget_state(2),
      of Resolves Rejects "Some ''aid''"]
  by (simp add: listening_widget_state)

text \<open>
  Claim C1 as stated fails: on the listening widget a click on the mic whose \<open>stop\<close>
  call throws does call \<open>stop\<close>, and leaves \<open>isListening\<close> true.
\<close>

theorem stop_throws_counterexample:
  "isListening listening_widget \<and>
   Stop \<in> set (sdk_calls (dispatch (ClickMic Resolves Rejects) listening_widget)) \<and>
   isListening (dispatch (ClickMic Resolves Rejects) listening_widget)"
  by (simp add: widget_defs scenario_defs)

text \<open>
  Claim C2, evaluated. A widget whose client has neither \<open>start\<close> nor
  \<open>connectToAssistant\<close> is not listening; after a click on the mic with the permission
  granted the warning is logged, no call was made on the client, and yet \<open>isListening\<close>
  is true, the mic has its \<open>on\<close> class and the status reads \<open>Listening...\<close>.
\<close>

theorem no_start_api_still_listening:
  "\<not> isListening (connectedCallback (page_with_sdk client_without_start) new_widget) \<and>
   isListening (dispatch (ClickMic Resolves Resolves)
     (connectedCallback (page_with_sdk client_without_start) new_widget)) \<and>
   status_text (dispatch (ClickMic Resolves Resolves)
     (connectedCallback (page_with_sdk client_without_start) new_widget)) = ''Listening...'' \<and>
   classList_contains ''on'' (mic_classes (dispatch (ClickMic Resolves Resolves)
     (connectedCallback (page_with_sdk client_without_start) new_widget))) \<and>
   console (dispatch (ClickMic Resolves Resolves)
     (connectedCallback (page_with_sdk client_without_start) new_widget)) =
     [Warn ''[NexusLumaAI] No start/connectToAssistant API found on Vapi instance.''] \<and>
   sdk_calls (dispatch (ClickMic Resolves Resolves)
     (connectedCallback (page_with_sdk client_without_start) new_widget)) =
     sdk_calls (connectedCallback (page_with_sdk client_without_start) new_widget)"
  by (simp add: widget_defs scenario_defs)

text \<open>
  Claim C3, evaluated. On the widget whose script failed to load the status reads
  \<open>SDK load failed\<close> and no listener was added: a click on the fab does not open the
  panel, and once the panel has been opened through \<open>open()\<close> a click on the close
  control or on the fab does not close it. The same holds after a constructor that
  throws, with the status \<open>Init error\<close>.
\<close>

theorem degraded_clicks_do_nothing:
  "status_text degraded_widget = ''SDK load failed'' \<and>
   listeners degraded_widget = [] \<and>
   \<not> isOpen degraded_widget \<and>
   \<not> isOpen (dispatch ClickFab degraded_widget) \<and>
   isOpen (state_of (widget_open degraded_widget)) \<and>
   isOpen (dispatch ClickClose (state_of (widget_open degraded_widget))) \<and>
   isOpen (dispatch ClickFab (state_of (widget_open degraded_widget))) \<and>
   status_text init_error_widget = ''Init error'' \<and>
   listeners init_error_widget = [] \<and>
   \<not> isOpen (dispatch ClickFab init_error_widget) \<and>
   isOpen (dispatch ClickClose (state_of (widget_open init_error_widget)))"
  by (simp add: widget_defs scenario_defs)

lemma trim_whitespace_only:
  assumes "\<forall>c\<in>set s. js_whitespace c"
  shows "trim s = []"
proof -
  have d: "dropWhile js_whitespace s = []"
    using assms by simp
  show ?thesis
    unfolding trim_def d by simp
qed

lemma fold_unchanged: "(\<And>x. f x w = w) \<Longrightarrow> fold f xs w = w"
  by (induction xs) simp_all

text \<open>
  Claim C6. Let the trimmed input be non-empty and the client have \<open>sendText\<close>, so that
  the call is made. When the call resolves, exactly one entry is appended to the chat,
  of class \<open>msg user\<close> and with the trimmed text, and the input is cleared. When the call
  throws, the chat is unchanged, the input keeps its text and the failure is logged. In
  both cases \<open>sendText\<close> was called exactly once (no retry).
\<close>

theorem sendText_success_and_failure:
  assumes "vapi w = Some c" and "has_sendText c" and "trim (textInput_value w) \<noteq> []"
  shows "chat_children (sendText Resolves w) =
           chat_children w @ [\<lparr> className = ''msg user'', textContent = trim (textInput_value w) \<rparr>] \<and>
         textInput_value (sendText Resolves w) = [] \<and>
         sdk_calls (sendText Resolves w) = sdk_calls w @ [SendText (trim (textInput_value w))] \<and>
         chat_children (sendText Rejects w) = chat_children w \<and>
         textInput_value (sendText Rejects w) = textInput_value w \<and>
         sdk_calls (sendText Rejects w) = sdk_calls w @ [SendText (trim (textInput_value w))] \<and>
         console (sendText Rejects w) = console w @ [Err ''[NexusLumaAI] sendText failed:'']"
  using assms
  by (simp add: sendText_def appendMsg_def sdk_def log_def Let_def)

lemma ready_widget_state:
  "vapi ready_widget = Some full_client" "has_sendText full_client"
  "chat_children ready_widget = []" "listeners ready_widget = [Some ''aid'']"
  by (simp_all add: widget_defs scenario_defs)

lemma trim_hi: "trim [0x20, 0x68, 0x69, 0x20] = [0x68, 0x69]"
  by (simp add: trim_def js_whitespace_def)

theorem sendText_success_and_failure_witness:
  "vapi (ready_widget\<lparr> textInput_value := [0x20, 0x68, 0x69, 0x20] \<rparr>) = Some full_client \<and>
   has_sendText full_client \<and>
   trim (textInput_value (ready_widget\<lparr> textInput_value := [0x20, 0x68, 0x69, 0x20] \<rparr>)) \<noteq> [] \<and>
   chat_children (sendText Resolves (ready_widget\<lparr> textInput_value := [0x20, 0x68, 0x69, 0x20] \<rparr>)) =
     [\<lparr> className = ''msg user'', textContent = [0x68, 0x69] \<rparr>] \<and>
   textInput_value (sendText Resolves (ready_widget\<lparr> textInput_value := [0x20, 0x68, 0x69, 0x20] \<rparr>)) = [] \<and>
   chat_children (sendText Rejects (ready_widget\<lparr> textInput_value := [0x20, 0x68, 0x69, 0x20] \<rparr>)) = []"
  using sendText_success_and_failure
    [of "ready_widget\<lparr> textInput_value := [0x20, 0x68, 0x69, 0x20] \<rparr>" full_client]
  by (simp add: ready_widget_state trim_hi)

text \<open>
  Claim C7. When every code unit of the input is white space (the empty input
  included), the text send changes nothing at all: the chat has no new entry and no call
  was made on the client, whatever the client is and whether the send runs directly or
  through its listeners (the click on send, the Enter key).
\<close>

theorem sendText_blank_is_noop:
  assumes "\<forall>c\<in>set (textInput_value w). js_whitespace c"
  shows "sendText call w = w \<and>
         chat_children (sendText call w) = chat_children w \<and>
         sdk_calls (sendText call w) = sdk_calls w \<and>
         dispatch (ClickSend call) w = w \<and>
         dispatch (KeydownInput ''Enter'' call) w = w"
proof -
  have t: "trim (textInput_value w) = []"
    using assms by (rule trim_whitespace_only)
  then have n: "sendText call w = w"
    by (simp add: sendText_def)
  have "dispatch (ClickSend call) w = w"
    unfolding dispatch_def by (rule fold_unchanged) (simp add: n)
  moreover have "dispatch (KeydownInput ''Enter'' call) w = w"
    unfolding dispatch_def by (rule fold_unchanged) (simp add: n)
  ultimately show ?thesis using n by simp
qed

theorem sendText_blank_is_noop_witness:
  "list_all js_whitespace [0x20, 0x09, 0xA0, 0x2003] \<and>
   sendText Resolves (ready_widget\<lparr> textInput_value := [0x20, 0x09, 0xA0, 0x2003] \<rparr>) =
     ready_widget\<lparr> textInput_value := [0x20, 0x09, 0xA0, 0x2003] \<rparr> \<and>
   dispatch (ClickSend Resolves) (ready_widget\<lparr> textInput_value := [0x20, 0x09, 0xA0, 0x2003] \<rparr>) =
     ready_widget\<lparr> textInput_value := [0x20, 0x09, 0xA0, 0x2003] \<rparr>"
proof -
  have h: "\<forall>c\<in>set (textInput_value (ready_widget\<lparr> textInput_value := [0x20, 0x09, 0xA0, 0x2003] \<rparr>)).
             js_whitespace c"
    by (simp add: js_whitespace_def)
  from sendText_blank_is_noop [OF h, of Resolves] show ?thesis
    by (simp add: js_whitespace_def)
qed

text \<open>
  The end-to-end scenario of the specification. The widget is mounted with
  \<open>public-key="pk"\<close> and \<open>assistant-id="aid"\<close> on a page whose SDK loads and constructs.
  A click on the fab opens the panel, flag and class; a click on the mic, with the
  permission granted and a \<open>start\<close> that resolves, calls \<open>start\<close> with the assistant id,
  makes the widget listen and sets the status \<open>Listening...\<close>.
\<close>

theorem end_to_end_scenario:
  "isOpen (dispatch ClickFab ready_widget) \<and>
   classList_contains ''open'' (panel_classes (dispatch ClickFab ready_widget)) \<and>
   isListening (dispatch (ClickMic Resolves Resolves) (dispatch ClickFab ready_widget)) \<and>
   status_text (dispatch (ClickMic Resolves Resolves) (dispatch ClickFab ready_widget)) =
     ''Listening...'' \<and>
   sdk_calls (dispatch (ClickMic Resolves Resolves) (dispatch ClickFab ready_widget)) =
     sdk_calls ready_widget @ [Start (Some ''aid'')]"
  by (simp add: widget_defs scenario_defs)

text \<open>
  Without a client handle the talk toggle returns at once: nothing changes, whatever the
  permission prompt and the client would have done.
\<close>

theorem toggleMic_without_client:
  assumes "vapi w = None"
  shows "toggleMic perm call aid w = w \<and>
         isListening (toggleMic perm call aid w) = isListening w"
  using assms
  by (simp add: toggleMic_def)

theorem toggleMic_without_client_witness:
  "vapi degraded_widget = None \<and>
   toggleMic Resolves Resolves (Some ''aid'') degraded_widget = degraded_widget"
proof -
  have h: "vapi degraded_widget = None"
    by (simp add: widget_defs scenario_defs)
  from toggleMic_without_client [OF h, of Resolves Resolves "Some ''aid''"] h
  show ?thesis by simp
qed

section \<open>Properties of the iframe host loader\<close>

lemmas host_defs =
  mountIframeWidget_def ensureStyle_def toggle_def on_message_def
  handle_open_def handle_close_def handle_sendText_def host_message_def host_run_def
  classList_add_def classList_remove_def classList_toggle_force_def Let_def

lemmas encode_defs =
  encodeURIComponent_def uri_unreserved_def is_lead_def is_trail_def utf8_def
  percent_encode_def hex_digit_def pair_code_point_def uri_malformed_def js_def

lemmas host_scenario_defs =
  demo_page_def demo_mount_def demo_opts_def opts_without_keys_def demo_host_def
  close_from_frame_def close_from_host_def

lemma includes_left:
  "str_includes (js ''bottom-right'') (js ''left'') = False"
  "str_includes (js ''bottom-left'') (js ''left'') = True"
  unfolding str_includes_def js_def by code_simp+

lemma demo_keys_encoded:
  "encodeURIComponent (JSString (js ''pk'')) = Inr (js ''pk'')"
  "encodeURIComponent (JSString (js ''aid'')) = Inr (js ''aid'')"
  "encodeURIComponent (JSString (js ''https://example.org'')) = Inr (js ''https%3A%2F%2Fexample.org'')"
  "encodeURIComponent JSUndefined = Inr (js ''undefined'')"
  by (simp_all add: encode_defs)

lemma demo_host_mounted:
  "mountIframeWidget demo_page (Some demo_opts) = Inr (demo_page\<lparr> has_style := True \<rparr>, demo_host)"
  by (simp add: mountIframeWidget_def ensureStyle_def Let_def host_scenario_defs
      includes_left demo_keys_encoded)
    (simp add: js_def)

lemma toggle_posts:
  "window_posted (toggle h) =
     window_posted h @ [host_message (if opened h then ''close'' else ''open'') Undefined]"
  "frame_posted (toggle h) = frame_posted h"
  by (simp_all add: toggle_def Let_def)

lemma on_message_posts:
  "frame_posted (on_message data h) = frame_posted h"
  "window_posted (on_message data h) = window_posted h \<or>
   window_posted (on_message data h) = window_posted h @ [host_message ''close'' Undefined]"
  by (simp_all add: on_message_def toggle_def Let_def split: option.splits)

lemma handle_sendText_posts:
  "window_posted (state_of (handle_sendText t h)) = window_posted h"
  "frame_posted (state_of (handle_sendText t h)) = frame_posted h \<or>
   (\<exists>p. frame_posted (state_of (handle_sendText t h)) =
          frame_posted h @ [host_message ''sendText'' p])"
  by (auto simp: handle_sendText_def)

lemma toggle_message_kinds:
  "is_toggle_message (host_message (if b then ''close'' else ''open'') Undefined)"
  "is_toggle_message (host_message ''close'' Undefined)"
  "is_toggle_message (host_message ''open'' Undefined)"
  "is_sendText_message (host_message ''sendText'' p)"
  "is_sendText_message m \<Longrightarrow> \<not> is_toggle_message m"
  by (auto simp: is_toggle_message_def is_sendText_message_def host_message_def)

lemma host_step_channels:
  assumes "list_all is_toggle_message (window_posted h)"
    and "list_all is_sendText_message (frame_posted h)"
  shows "list_all is_toggle_message (window_posted (host_step e h)) \<and>
         list_all is_sendText_message (frame_posted (host_step e h))"
proof (cases e)
  case FabClick
  then show ?thesis using assms by (simp add: toggle_posts toggle_message_kinds)
next
  case (MessageEvent data)
  from on_message_posts(2) [of data h] assms(1)
  have "list_all is_toggle_message (window_posted (on_message data h))"
    by (auto simp: toggle_message_kinds)
  then show ?thesis using MessageEvent assms(2) by (simp add: on_message_posts(1))
next
  case CallOpen
  then show ?thesis
    using assms by (simp add: handle_open_def toggle_posts toggle_message_kinds)
next
  case CallClose
  then show ?thesis
    using assms by (simp add: handle_close_def toggle_posts toggle_message_kinds)
next
  case (CallSendText t)
  from handle_sendText_posts(2) [of t h] assms(2)
  have "list_all is_sendText_message (frame_posted (state_of (handle_sendText t h)))"
    by (auto simp: toggle_message_kinds)
  then show ?thesis using CallSendText assms(1) by (simp add: handle_sendText_posts(1))
qed

lemma host_run_channels:
  assumes "list_all is_toggle_message (window_posted h)"
    and "list_all is_sendText_message (frame_posted h)"
  shows "list_all is_toggle_message (window_posted (host_run evs h)) \<and>
         list_all is_sendText_message (frame_posted (host_run evs h))"
  using assms unfolding host_run_def
proof (induction evs arbitrary: h)
  case Nil
  then show ?case by simp
next
  case (Cons e evs)
  from host_step_channels [OF Cons.prems, of e] Cons.IH [of "host_step e h"]
  show ?case by simp
qed

lemma mounted_nothing_posted:
  assumes "mountIframeWidget pg arg = Inr (pg', h0)"
  shows "window_posted h0 = [] \<and> frame_posted h0 = []"
  using assms
  by (auto simp: mountIframeWidget_def Let_def
      split: option.splits if_splits js_value.splits sum.splits mount_arg.splits)

text \<open>
  Claim C4. \<open>toggle\<close> appends its \<open>open\<close> or \<open>close\<close> message to what was posted on the
  host's own window and posts nothing to the frame's window; the handle's \<open>sendText\<close>
  posts nothing on the host's window. So after any run of events on a mounted loader,
  every message posted on the host's window is an \<open>open\<close> or \<open>close\<close> message of the
  host, every message posted to the frame's window is a \<open>sendText\<close> message, and no
  \<open>open\<close> or \<open>close\<close> message was posted to the frame.
\<close>

theorem toggle_posts_on_host_window_only:
  assumes "mountIframeWidget pg arg = Inr (pg', h0)"
  shows "list_all is_toggle_message (window_posted (host_run evs h0)) \<and>
         list_all is_sendText_message (frame_posted (host_run evs h0)) \<and>
         list_all (\<lambda>m. \<not> is_toggle_message m) (frame_posted (host_run evs h0)) \<and>
         window_posted (toggle h) =
           window_posted h @ [host_message (if opened h then ''close'' else ''open'') Undefined] \<and>
         frame_posted (toggle h) = frame_posted h \<and>
         window_posted (state_of (handle_sendText t h)) = window_posted h"
proof -
  from mounted_nothing_posted [OF assms]
  have "list_all is_toggle_message (window_posted h0)"
    and "list_all is_sendText_message (frame_posted h0)" by simp_all
  from host_run_channels [OF this, of evs]
  have r: "list_all is_toggle_message (window_posted (host_run evs h0))"
    "list_all is_sendText_message (frame_posted (host_run evs h0))" by simp_all
  from r(2) have "list_all (\<lambda>m. \<not> is_toggle_message m) (frame_posted (host_run evs h0))"
    by (simp add: list_all_iff toggle_message_kinds(5))
  with r show ?thesis
    by (simp add: toggle_posts handle_sendText_posts(1))
qed

theorem toggle_posts_on_host_window_only_witness:
  "mountIframeWidget demo_page (Some demo_opts) = Inr (demo_page\<lparr> has_style := True \<rparr>, demo_host) \<and>
   window_posted (host_run [FabClick, CallSendText (Some ''hi''), MessageEvent (Some close_from_frame)] demo_host) =
     [host_message ''open'' Undefined, host_message ''close'' Undefined] \<and>
   frame_posted (host_run [FabClick, CallSendText (Some ''hi''), MessageEvent (Some close_from_frame)] demo_host) =
     [host_message ''sendText'' (Text ''hi'')] \<and>
   list_all is_toggle_message
     (window_posted (host_run [FabClick, CallSendText (Some ''hi''), MessageEvent (Some close_from_frame)] demo_host))"
  using toggle_posts_on_host_window_only [OF demo_host_mounted,
      of "[FabClick, CallSendText (Some ''hi''), MessageEvent (Some close_from_frame)]"
        demo_host None]
  by (simp add: demo_host_mounted)
    (simp add: toggle_def on_message_def handle_sendText_def host_message_def host_run_def
      classList_add_def classList_remove_def classList_toggle_force_def Let_def
      demo_host_def close_from_frame_def is_toggle_message_def)

text \<open>
  Claim C8. A message event whose data is falsy, or whose \<open>source\<close> is not the tag
  \<open>NXL_IFRAME\<close>, leaves the whole state of the loader as it is: the \<open>open\<close> variable, the
  classes of the fab and the frame, the console, and both lists of posted messages.
\<close>

theorem foreign_message_ignored:
  assumes "case data of None \<Rightarrow> True | Some d \<Rightarrow> source d \<noteq> Some ''NXL_IFRAME''"
  shows "on_message data h = h \<and> host_step (MessageEvent data) h = h \<and>
         window_posted (on_message data h) = window_posted h \<and>
         frame_posted (on_message data h) = frame_posted h"
  using assms
  by (cases data) (simp_all add: on_message_def)

theorem foreign_message_ignored_witness:
  "source close_from_host \<noteq> Some ''NXL_IFRAME'' \<and>
   opened (toggle demo_host) \<and>
   on_message (Some close_from_host) (toggle demo_host) = toggle demo_host \<and>
   on_message None (toggle demo_host) = toggle demo_host"
  using foreign_message_ignored [of "Some close_from_host" "toggle demo_host"]
    foreign_message_ignored [of None "toggle demo_host"]
  by (simp add: close_from_host_def toggle_def demo_host_def)

text \<open>
  Claim C9. A \<open>close\<close> message of the frame that arrives while the \<open>open\<close> variable is
  false changes nothing: the variable, the classes of the frame, the messages posted on
  either window and the rest of the state are as before.
\<close>

theorem close_while_closed_ignored:
  assumes "source d = Some ''NXL_IFRAME''" and "msg_type d = Some ''close''" and "\<not> opened h"
  shows "on_message (Some d) h = h \<and>
         opened (on_message (Some d) h) = opened h \<and>
         frame_classes (on_message (Some d) h) = frame_classes h \<and>
         window_posted (on_message (Some d) h) = window_posted h \<and>
         frame_posted (on_message (Some d) h) = frame_posted h"
  using assms
  by (simp add: on_message_def)

theorem close_while_closed_ignored_witness:
  "source close_from_frame = Some ''NXL_IFRAME'' \<and> msg_type close_from_frame = Some ''close'' \<and>
   \<not> opened demo_host \<and>
   on_message (Some close_from_frame) demo_host = demo_host \<and>
   window_posted (host_run [FabClick, MessageEvent (Some close_from_frame),
       MessageEvent (Some close_from_frame)] demo_host) =
     [host_message ''open'' Undefined, host_message ''close'' Undefined]"
  using close_while_closed_ignored [of close_from_frame demo_host]
  by (simp add: host_defs host_scenario_defs)




















end
